theory Spec2Isabelle
  imports Main "HOL-Library.Sublist"
begin

section \<open>JavaScript values\<close>

text \<open>
  A JavaScript string is a \<open>string\<close>; a value that may be \<open>null\<close> or \<open>undefined\<close>
  is an \<open>option\<close>. A string is truthy when it is present and not empty.
\<close>

definition truthy :: "string option \<Rightarrow> bool" where
  "truthy v = (case v of None \<Rightarrow> False | Some s \<Rightarrow> s \<noteq> [])"

text \<open>
  \<open>String.prototype.trim\<close> removes white space and line terminators at both ends.
  Characters are bytes here, so the set is the part of it below 256: tab, line feed,
  vertical tab, form feed, carriage return, space and no-break space.
\<close>

definition isWhiteSpace :: "char \<Rightarrow> bool" where
  "isWhiteSpace c = (c \<in> set [CHR 0x09, CHR 0x0A, CHR 0x0B, CHR 0x0C, CHR 0x0D, CHR 0x20, CHR 0xA0])"

definition trim :: "string \<Rightarrow> string" where
  "trim s = rev (dropWhile isWhiteSpace (rev (dropWhile isWhiteSpace s)))"

definition startsWith :: "string \<Rightarrow> string \<Rightarrow> bool" where
  "startsWith s p = (take (length p) s = p)"

section \<open>The interview context (InterviewContext.js)\<close>

record message =
  role :: string
  content :: "string option"
  tool_calls :: "string option"
  audioUrl :: "string option"
  msgLoading :: bool

record jobRole =
  role_name :: string
  seniority_level :: string
  required_skills :: "string list"
  description :: string

record challenge =
  challenge_id :: "string option"
  chal_id :: "string option"
  starter_code :: "string option"
  chal_language :: "string option"

record interview_state =
  userId :: "string option"
  sessionId :: "string option"
  messages :: "message list"
  loading :: bool
  error :: "string option"
  voiceMode :: bool
  interviewStage :: string
  jobRoleData :: "jobRole option"
  currentCodingChallenge :: "challenge option"

text \<open>
  \<open>uuidv4()\<close> is not a function of its arguments: the value it returned when the module
  was loaded and the value it returns when RESET is reduced are given from outside.
\<close>

record uuid_env =
  load_uuid :: string
  reset_uuid :: string

definition initialState :: "uuid_env \<Rightarrow> interview_state" where
  "initialState env = \<lparr>
     userId = Some (''user-'' @ load_uuid env),
     sessionId = None,
     messages = [],
     loading = False,
     error = None,
     voiceMode = False,
     interviewStage = ''introduction'',
     jobRoleData = None,
     currentCodingChallenge = None \<rparr>"

datatype action =
    SET_USER_ID "string option"
  | SET_SESSION_ID "string option"
  | SET_MESSAGES "message list"
  | ADD_MESSAGE message
  | SET_LOADING bool
  | SET_ERROR "string option"
  | SET_VOICE_MODE bool
  | SET_INTERVIEW_STAGE string
  | SET_JOB_ROLE_DATA "jobRole option"
  | SET_CURRENT_CODING_CHALLENGE "challenge option"
  | RESET
  | OTHER_ACTION

fun reducer :: "uuid_env \<Rightarrow> interview_state \<Rightarrow> action \<Rightarrow> interview_state" where
  "reducer env state (SET_USER_ID payload) = state\<lparr>userId := payload\<rparr>"
| "reducer env state (SET_SESSION_ID payload) = state\<lparr>sessionId := payload\<rparr>"
| "reducer env state (SET_MESSAGES payload) = state\<lparr>messages := payload\<rparr>"
| "reducer env state (ADD_MESSAGE payload) = state\<lparr>messages := messages state @ [payload]\<rparr>"
| "reducer env state (SET_LOADING payload) = state\<lparr>loading := payload\<rparr>"
| "reducer env state (SET_ERROR payload) = state\<lparr>error := payload\<rparr>"
| "reducer env state (SET_VOICE_MODE payload) = state\<lparr>voiceMode := payload\<rparr>"
| "reducer env state (SET_INTERVIEW_STAGE payload) = state\<lparr>interviewStage := payload\<rparr>"
| "reducer env state (SET_JOB_ROLE_DATA payload) = state\<lparr>jobRoleData := payload\<rparr>"
| "reducer env state (SET_CURRENT_CODING_CHALLENGE payload) =
     state\<lparr>currentCodingChallenge := payload\<rparr>"
| "reducer env state RESET =
     (initialState env)\<lparr>userId := Some (''user-'' @ reset_uuid env),
                          messages := [],
                          currentCodingChallenge := None\<rparr>"
| "reducer env state OTHER_ACTION = state"

section \<open>The API service (interviewService.js)\<close>

datatype json = JNull | JBool bool | JNum int | JStr string | JArr "json list"

definition optStr :: "string option \<Rightarrow> json" where
  "optStr v = (case v of None \<Rightarrow> JNull | Some s \<Rightarrow> JStr s)"

text \<open>\<open>a || b\<close> on strings: \<open>b\<close> when \<open>a\<close> is missing or empty.\<close>

definition orElse :: "string option \<Rightarrow> string \<Rightarrow> string" where
  "orElse v d = (case v of None \<Rightarrow> d | Some s \<Rightarrow> if s = [] then d else s)"

record request =
  http_method :: string
  url :: string
  body :: "(string \<times> json) list"

record http_response =
  status :: nat
  statusText :: string
  detail :: "string option"

text \<open>
  What a \<open>catch\<close> block receives: an axios error has \<open>response\<close> when the server
  answered and \<open>request\<close> when a request was made; an \<open>Error\<close> thrown by the code itself
  has neither.
\<close>

record axios_error =
  err_response :: "http_response option"
  err_request :: bool
  err_message :: "string option"

definition thrown :: "string \<Rightarrow> axios_error" where
  "thrown msg = \<lparr>err_response = None, err_request = False, err_message = Some msg\<rparr>"

text \<open>
  Reading a property of \<open>null\<close> throws a TypeError; its message is the engine's
  (this is V8's).
\<close>

definition typeError :: "string \<Rightarrow> axios_error" where
  "typeError prop = thrown (''Cannot read properties of null (reading '' @ [CHR 0x27] @ prop @ [CHR 0x27] @ '')'')"

record enhanced_error =
  e_message :: string
  originalError :: "axios_error option"
  e_status :: "nat option"
  isVoiceUnavailable :: bool
  isNoSpeech :: bool

text \<open>The JSON object of a successful answer.\<close>

record api_data =
  response :: "string option"
  session_id :: "string option"
  interview_stage :: "string option"
  coding_challenge_detail :: "challenge option"
  codingChallengeDetail :: "challenge option"
  resp_tool_calls :: "string option"
  audio_response_url :: "string option"
  transcription :: "string option"

text \<open>
  The network: what comes back for a request, before the response interceptor. The
  data of a successful answer may be \<open>null\<close>.
\<close>

type_synonym server = "request \<Rightarrow> axios_error + api_data option"

text \<open>
  The result of a service function: the requests it put on the network and what it
  returned or threw.
\<close>

type_synonym 'a outcome = "request list \<times> (enhanced_error + 'a)"

definition handleApiError :: "axios_error \<Rightarrow> string option \<Rightarrow> enhanced_error" where
  "handleApiError err customMessage =
     (let errorMessage0 = orElse customMessage ''An error occurred'';
          errorMessage =
            (case err_response err of
               Some resp \<Rightarrow> ''Server error: '' @ orElse (detail resp) (statusText resp)
             | None \<Rightarrow>
                 if err_request err
                 then ''No response from server. Check your network connection.''
                 else orElse (err_message err) errorMessage0)
      in \<lparr>e_message = errorMessage,
          originalError = Some err,
          e_status = map_option status (err_response err),
          isVoiceUnavailable = False,
          isNoSpeech = False\<rparr>)"

definition response_interceptor :: "axios_error \<Rightarrow> axios_error" where
  "response_interceptor err =
     (let error1 =
            (case err_response err of
               Some resp \<Rightarrow>
                 if status resp = 429
                 then err\<lparr>err_message :=
                        Some ''Too many requests. Please wait a moment before trying again.''\<rparr>
                 else err
             | None \<Rightarrow> err)
      in case err_response error1 of
           Some resp \<Rightarrow>
             if status resp \<ge> 500
             then error1\<lparr>err_message :=
                    Some ''The server encountered an error. Please try again later.''\<rparr>
             else error1
         | None \<Rightarrow> error1)"

definition api_post :: "server \<Rightarrow> request \<Rightarrow> axios_error + api_data option" where
  "api_post server req =
     (case server req of Inl err \<Rightarrow> Inl (response_interceptor err) | Inr d \<Rightarrow> Inr d)"

definition jobRoleFields :: "jobRole option \<Rightarrow> (string \<times> json) list" where
  "jobRoleFields j =
     (case j of
        None \<Rightarrow> []
      | Some r \<Rightarrow>
          [(''job_role'', JStr (role_name r)),
           (''seniority_level'', JStr (seniority_level r)),
           (''required_skills'', JArr (map JStr (required_skills r))),
           (''job_description'', JStr (description r))])"

definition startInterview ::
  "server \<Rightarrow> string \<Rightarrow> string option \<Rightarrow> jobRole option \<Rightarrow> api_data option outcome" where
  "startInterview server message uid job =
     (let requestBody = [(''message'', JStr message), (''user_id'', optStr uid)] @ jobRoleFields job;
          req = \<lparr>http_method = ''POST'', url = ''/interview'', body = requestBody\<rparr>
      in ([req],
          case api_post server req of
            Inl err \<Rightarrow> Inl (handleApiError err (Some ''Failed to start interview''))
          | Inr None \<Rightarrow>
              Inl (handleApiError (typeError ''coding_challenge_detail'')
                     (Some ''Failed to start interview''))
          | Inr (Some d) \<Rightarrow>
              Inr (Some (d\<lparr>codingChallengeDetail := coding_challenge_detail d\<rparr>))))"

definition continueInterview ::
  "server \<Rightarrow> string \<Rightarrow> string option \<Rightarrow> string option \<Rightarrow> jobRole option
     \<Rightarrow> api_data option outcome" where
  "continueInterview server message sid uid job =
     (if \<not> truthy sid
      then ([], Inl (handleApiError (thrown ''Session ID is required'')
                       (Some ''Failed to continue interview'')))
      else if \<not> truthy uid
      then ([], Inl (handleApiError (thrown ''User ID is required'')
                       (Some ''Failed to continue interview'')))
      else
        let requestBody =
              [(''message'', JStr message), (''user_id'', optStr uid)] @ jobRoleFields job;
            req = \<lparr>http_method = ''POST'', url = ''/interview/'' @ orElse sid [], body = requestBody\<rparr>
        in ([req],
            case api_post server req of
              Inl err \<Rightarrow> Inl (handleApiError err (Some ''Failed to continue interview''))
            | Inr None \<Rightarrow>
                Inl (handleApiError (typeError ''coding_challenge_detail'')
                       (Some ''Failed to continue interview''))
            | Inr (Some d) \<Rightarrow>
                Inr (Some (d\<lparr>codingChallengeDetail := coding_challenge_detail d\<rparr>))))"

definition continueAfterCodingChallenge ::
  "server \<Rightarrow> string \<Rightarrow> string option \<Rightarrow> string option \<Rightarrow> bool \<Rightarrow> api_data option outcome" where
  "continueAfterCodingChallenge server message sid uid completed =
     (if \<not> truthy sid
      then ([], Inl (handleApiError (thrown ''Session ID is required'')
                       (Some ''Failed to continue after challenge'')))
      else if \<not> truthy uid
      then ([], Inl (handleApiError (thrown ''User ID is required'')
                       (Some ''Failed to continue after challenge'')))
      else
        let requestBody =
              [(''message'', JStr message), (''user_id'', optStr uid),
               (''challenge_completed'', JBool completed)];
            req = \<lparr>http_method = ''POST'',
                   url = ''/interview/'' @ orElse sid [] @ ''/challenge-complete'',
                   body = requestBody\<rparr>
        in ([req],
            case api_post server req of
              Inl err \<Rightarrow> Inl (handleApiError err (Some ''Failed to continue after challenge''))
            | Inr d \<Rightarrow> Inr d))"


text \<open>
  The outer \<open>catch\<close> of \<open>transcribeAndRespond\<close>: statuses 501 and 422 get errors of
  their own, everything else goes to \<open>handleApiError\<close>.
\<close>

definition transcribeCatch :: "axios_error \<Rightarrow> enhanced_error" where
  "transcribeCatch err =
     (if map_option status (err_response err) = Some 501
      then \<lparr>e_message = ''Voice processing is not available on this server'',
            originalError = None, e_status = None,
            isVoiceUnavailable = True, isNoSpeech = False\<rparr>
      else if map_option status (err_response err) = Some 422
      then \<lparr>e_message = ''No speech detected or audio could not be transcribed'',
            originalError = None, e_status = None,
            isVoiceUnavailable = False, isNoSpeech = True\<rparr>
      else handleApiError err (Some ''Failed to process voice input''))"

text \<open>\<open>now\<close> is \<open>Date.now()\<close> in decimal, read when the request body is built.\<close>

definition transcribeAndRespond ::
  "server \<Rightarrow> string \<Rightarrow> string option \<Rightarrow> string option \<Rightarrow> string option \<Rightarrow> jobRole option
     \<Rightarrow> api_data outcome" where
  "transcribeAndRespond server now audioBase64 uid sid job =
     (if \<not> truthy audioBase64
      then ([], Inl (transcribeCatch (thrown ''Audio data is required'')))
      else
        let audio = orElse audioBase64 [];
            isFullDataUri = startsWith audio ''data:audio/'';
            formattedAudioData =
              (if \<not> isFullDataUri then ''data:audio/wav;base64,'' @ audio else audio);
            requestBody =
              [(''audio_data'', JStr formattedAudioData),
               (''user_id'', JStr (orElse uid (''anon-'' @ now))),
               (''session_id'', optStr sid),
               (''sample_rate'', JNum 16000),
               (''channels'', JNum 1)] @ jobRoleFields job;
            req = \<lparr>http_method = ''POST'', url = ''/audio/transcribe'', body = requestBody\<rparr>
        in ([req],
            case api_post server req of
              Inl err \<Rightarrow> Inl (transcribeCatch err)
            | Inr None \<Rightarrow>
                Inl (transcribeCatch (thrown ''Invalid response from transcription service''))
            | Inr (Some d) \<Rightarrow>
                if \<not> truthy (transcription d)
                then Inl (transcribeCatch (thrown ''Invalid response from transcription service''))
                else Inr d))"

section \<open>The chat interface (ChatInterface.js)\<close>

text \<open>
  The component's world: the context state, its own state (\<open>messageInput\<close>,
  \<open>isWaitingForCodingChallenge\<close>) and the requests put on the network so far.
\<close>

record client =
  ctx :: interview_state
  messageInput :: string
  isWaitingForCodingChallenge :: bool
  sent :: "request list"

definition dispatch :: "uuid_env \<Rightarrow> action \<Rightarrow> client \<Rightarrow> client" where
  "dispatch env a c = c\<lparr>ctx := reducer env (ctx c) a\<rparr>"

definition logRequests :: "request list \<Rightarrow> client \<Rightarrow> client" where
  "logRequests reqs c = c\<lparr>sent := sent c @ reqs\<rparr>"

text \<open>
  The effect that keeps \<open>isWaitingForCodingChallenge\<close> in step with the context
  (ChatInterface.js, lines 113 to 124); it runs after a render in which the stage or the
  current challenge changed.
\<close>

definition waitingEffect :: "client \<Rightarrow> client" where
  "waitingEffect c =
     (if interviewStage (ctx c) = ''coding_challenge'' \<and> currentCodingChallenge (ctx c) \<noteq> None
      then c\<lparr>isWaitingForCodingChallenge := True\<rparr>
      else if interviewStage (ctx c) \<noteq> ''coding_challenge''
      then c\<lparr>isWaitingForCodingChallenge := False\<rparr>
      else c)"

text \<open>
  \<open>handleSendMessage\<close> (lines 147 to 237) in four parts. First the choice of the service
  call and what follows it at once (lines 167 to 190): \<open>c0\<close> is the component as the
  handler found it, \<open>c\<close> the component after the typed text was appended.
\<close>

definition sendToServer ::
  "uuid_env \<Rightarrow> server \<Rightarrow> client \<Rightarrow> client \<Rightarrow> client \<times> (enhanced_error + api_data option)" where
  "sendToServer env server c0 c =
     (let text = messageInput c0;
          sid = sessionId (ctx c0);
          uid = userId (ctx c0);
          job = jobRoleData (ctx c0)
      in if truthy sid
         then
           if isWaitingForCodingChallenge c0
           then
             (case continueAfterCodingChallenge server text sid uid True of
                (reqs, Inl e) \<Rightarrow> (logRequests reqs c, Inl e)
              | (reqs, Inr r) \<Rightarrow>
                  ((dispatch env (SET_CURRENT_CODING_CHALLENGE None) (logRequests reqs c))
                     \<lparr>isWaitingForCodingChallenge := False\<rparr>, Inr r))
           else
             (case continueInterview server text sid uid job of
                (reqs, res) \<Rightarrow> (logRequests reqs c, res))
         else
           (case startInterview server text uid job of
              (reqs, Inl e) \<Rightarrow> (logRequests reqs c, Inl e)
            | (reqs, Inr r) \<Rightarrow>
                (case r of
                   Some d \<Rightarrow>
                     if truthy (session_id d)
                     then (dispatch env (SET_SESSION_ID (session_id d)) (logRequests reqs c), Inr r)
                     else (logRequests reqs c, Inr r)
                 | None \<Rightarrow> (logRequests reqs c, Inr r))))"

text \<open>The reply is appended when the answer has one (lines 193 to 200).\<close>

definition addAssistantMessage :: "uuid_env \<Rightarrow> api_data option \<Rightarrow> client \<Rightarrow> client" where
  "addAssistantMessage env r c =
     (case r of
        Some d \<Rightarrow>
          if truthy (response d)
          then dispatch env
                 (ADD_MESSAGE \<lparr>role = ''assistant'', content = response d,
                                tool_calls = resp_tool_calls d,
                                audioUrl = audio_response_url d, msgLoading = False\<rparr>) c
          else c
      | None \<Rightarrow> c)"

text \<open>The stage and the challenge of the answer (lines 203 to 227).\<close>

definition updateStageAndChallenge :: "uuid_env \<Rightarrow> api_data option \<Rightarrow> client \<Rightarrow> client" where
  "updateStageAndChallenge env r c =
     (case r of
        Some d \<Rightarrow>
          if truthy (interview_stage d)
          then
            let stage = orElse (interview_stage d) [];
                c1 = dispatch env (SET_INTERVIEW_STAGE stage) c
            in if (stage = ''coding_challenge'' \<or> stage = ''coding_challenge_waiting'')
                  \<and> codingChallengeDetail d \<noteq> None
               then dispatch env (SET_CURRENT_CODING_CHALLENGE (codingChallengeDetail d)) c1
               else c1
          else c
      | None \<Rightarrow> c)"

text \<open>
  The start of a text turn (lines 152 to 162): loading on, the typed text appended, the
  input cleared.
\<close>

definition beginTurn :: "uuid_env \<Rightarrow> client \<Rightarrow> client" where
  "beginTurn env c =
     (let c1 = dispatch env (SET_LOADING True) c;
          c2 = dispatch env
                 (ADD_MESSAGE \<lparr>role = ''user'', content = Some (messageInput c),
                                tool_calls = None, audioUrl = None, msgLoading = False\<rparr>) c1
      in c2\<lparr>messageInput := []\<rparr>)"

definition handleSendMessage :: "uuid_env \<Rightarrow> server \<Rightarrow> client \<Rightarrow> client" where
  "handleSendMessage env server c =
     (if trim (messageInput c) = [] then c
      else
        let c3 = beginTurn env c;
            c5 = (case sendToServer env server c c3 of
                    (c4, Inr r) \<Rightarrow>
                      dispatch env (SET_ERROR None)
                        (updateStageAndChallenge env r (addAssistantMessage env r c4))
                  | (c4, Inl e) \<Rightarrow>
                      dispatch env
                        (SET_ERROR (Some ''Failed to send message. Please try again.'')) c4)
        in dispatch env (SET_LOADING False) c5)"



text \<open>
  The stage and the challenge of a voice answer (lines 297 to 311); \<open>current\<close> is the
  current challenge as the handler found it.
\<close>

definition voiceStageAndChallenge ::
  "uuid_env \<Rightarrow> challenge option \<Rightarrow> api_data \<Rightarrow> client \<Rightarrow> client" where
  "voiceStageAndChallenge env current d c =
     (if truthy (interview_stage d)
      then
        let stage = orElse (interview_stage d) [];
            c1 = dispatch env (SET_INTERVIEW_STAGE stage) c
        in if stage = ''coding_challenge'' \<and> coding_challenge_detail d \<noteq> None
           then dispatch env (SET_CURRENT_CODING_CHALLENGE (coding_challenge_detail d)) c1
           else if stage \<noteq> ''coding_challenge''
           then (if current \<noteq> None
                 then dispatch env (SET_CURRENT_CODING_CHALLENGE None) c1
                 else c1)
           else c1
      else c)"


section \<open>The coding challenge panel (CodingChallenge.js)\<close>

record editor =
  currentChallengeDetails :: "challenge option"
  code :: string
  language :: string
  evaluationResult :: "string option"


text \<open>
  The panel's source is the CodingChallenge component printed in README.md. Once a
  challenge is loaded its effect moves the stage to \<open>coding_challenge_waiting\<close>.
\<close>

definition challengeStageEffect :: "uuid_env \<Rightarrow> editor \<Rightarrow> client \<Rightarrow> client" where
  "challengeStageEffect env ed c =
     (if currentChallengeDetails ed \<noteq> None
         \<and> interviewStage (ctx c) \<noteq> ''coding_challenge_waiting''
      then dispatch env (SET_INTERVIEW_STAGE ''coding_challenge_waiting'') c
      else c)"




section \<open>The session store\<close>

text \<open>
  Modelled from the spec: the Session Store (\<open>load\<close>, \<open>save\<close>) and the
  \<open>InterviewSession\<close> record it keeps are not among the sources; they follow the spec's
  data model and its Session Store API: one record per session id holding the whole
  session, \<open>save\<close> answering ok or err, \<open>load\<close> answering the session or nothing.
\<close>

datatype stage = Greeting | Introduction | TechnicalQA | CodingChallengeSetup
  | CodingChallenge | CodingChallengeWaiting | Feedback | Conclusion

datatype session_status = Active | Completed | Abandoned

datatype msg_role = User | Assistant | Tool

record session_message =
  sm_role :: msg_role
  sm_content :: string
  sm_tool_calls :: "string list"

record InterviewSession =
  s_session_id :: string
  s_user_id :: string
  s_status :: session_status
  s_messages :: "session_message list"
  s_stage :: stage
  s_suspended :: bool

datatype store_error = PersistenceError

type_synonym session_store = "string \<rightharpoonup> InterviewSession"

definition save :: "bool \<Rightarrow> session_store \<Rightarrow> InterviewSession \<Rightarrow> store_error + session_store" where
  \<comment> \<open>Modelled from the spec: \<open>writable\<close> says whether the store accepts the write.\<close>
  "save writable store s =
     (if writable then Inr (store(s_session_id s \<mapsto> s)) else Inl PersistenceError)"

definition load :: "session_store \<Rightarrow> string \<Rightarrow> InterviewSession option" where
  \<comment> \<open>Modelled from the spec: the record kept under the session id, if any.\<close>
  "load store sid = store sid"

section \<open>A conversation\<close>


section \<open>Example inputs\<close>



definition silent_server :: server where
  "silent_server req = Inr None"













definition demo_session :: InterviewSession where
  "demo_session = \<lparr>s_session_id = ''s1'', s_user_id = ''u1'', s_status = Active,
                    s_messages = [\<lparr>sm_role = User, sm_content = ''hi'', sm_tool_calls = []\<rparr>],
                    s_stage = Introduction, s_suspended = False\<rparr>"

section \<open>Properties\<close>

subsection \<open>Helper facts\<close>

lemma ctx_dispatch [simp]: "ctx (dispatch env a c) = reducer env (ctx c) a"
  and sent_dispatch [simp]: "sent (dispatch env a c) = sent c"
  and waiting_dispatch [simp]:
    "isWaitingForCodingChallenge (dispatch env a c) = isWaitingForCodingChallenge c"
  and input_dispatch [simp]: "messageInput (dispatch env a c) = messageInput c"
  by (simp_all add: dispatch_def)

lemma ctx_logRequests [simp]: "ctx (logRequests reqs c) = ctx c"
  and sent_logRequests [simp]: "sent (logRequests reqs c) = sent c @ reqs"
  and waiting_logRequests [simp]:
    "isWaitingForCodingChallenge (logRequests reqs c) = isWaitingForCodingChallenge c"
  by (simp_all add: logRequests_def)


lemma orElse_Some [simp]: "s \<noteq> [] \<Longrightarrow> orElse (Some s) d = s"
  by (simp add: orElse_def)

lemma truthy_Some [simp]: "truthy (Some s) = (s \<noteq> [])"
  and truthy_None [simp]: "\<not> truthy None"
  by (simp_all add: truthy_def)










subsection \<open>Messages\<close>



subsection \<open>Errors of the API service\<close>









subsection \<open>Voice requests\<close>

text \<open>
  C9. For an audio string that is not empty, \<open>transcribeAndRespond\<close> sends one request, to
  \<open>/audio/transcribe\<close>, whose \<open>audio_data\<close> begins with \<open>data:audio/\<close>: the input itself
  when it begins so, and \<open>data:audio/wav;base64,\<close> followed by the input otherwise. With
  the audio missing or empty it sends nothing and throws \<open>Audio data is required\<close>.
\<close>

theorem transcribe_audio_data_prefix:
  "(audio \<noteq> [] \<longrightarrow>
      (\<exists>req a. fst (transcribeAndRespond server now (Some audio) uid sid job) = [req]
         \<and> url req = ''/audio/transcribe''
         \<and> map_of (body req) ''audio_data'' = Some (JStr a)
         \<and> startsWith a ''data:audio/''
         \<and> a = (if startsWith audio ''data:audio/'' then audio
                else ''data:audio/wav;base64,'' @ audio)))
   \<and> (\<not> truthy missing \<longrightarrow>
        fst (transcribeAndRespond server now missing uid sid job) = []
        \<and> (\<exists>e. snd (transcribeAndRespond server now missing uid sid job) = Inl e
               \<and> e_message e = ''Audio data is required''))"
proof (intro conjI impI)
  assume ne: "audio \<noteq> []"
  let ?a = "if startsWith audio ''data:audio/'' then audio else ''data:audio/wav;base64,'' @ audio"
  have sw: "startsWith ?a ''data:audio/''"
    by (simp add: startsWith_def)
  from ne sw show "\<exists>req a. fst (transcribeAndRespond server now (Some audio) uid sid job) = [req]
         \<and> url req = ''/audio/transcribe''
         \<and> map_of (body req) ''audio_data'' = Some (JStr a)
         \<and> startsWith a ''data:audio/''
         \<and> a = ?a"
    by (simp add: transcribeAndRespond_def Let_def)
next
  assume "\<not> truthy missing"
  then show "fst (transcribeAndRespond server now missing uid sid job) = []"
    by (simp add: transcribeAndRespond_def)
next
  assume "\<not> truthy missing"
  then show "\<exists>e. snd (transcribeAndRespond server now missing uid sid job) = Inl e
               \<and> e_message e = ''Audio data is required''"
    by (simp add: transcribeAndRespond_def transcribeCatch_def thrown_def handleApiError_def
        orElse_def Let_def)
qed

theorem transcribe_audio_data_prefix_witness:
  "''QUJD'' \<noteq> [] \<and> \<not> truthy (Some [])
   \<and> fst (transcribeAndRespond silent_server ''0'' (Some ''QUJD'') None None None) =
       [\<lparr>http_method = ''POST'', url = ''/audio/transcribe'',
         body = [(''audio_data'', JStr ''data:audio/wav;base64,QUJD''),
                 (''user_id'', JStr ''anon-0''), (''session_id'', JNull),
                 (''sample_rate'', JNum 16000), (''channels'', JNum 1)]\<rparr>]
   \<and> fst (transcribeAndRespond silent_server ''0'' (Some []) None None None) = []"
  using transcribe_audio_data_prefix [of "''QUJD''" silent_server "''0''" None None None "Some []"]
  by (simp add: transcribeAndRespond_def orElse_def Let_def startsWith_def
      optStr_def jobRoleFields_def)

subsection \<open>Submitting a solution\<close>



subsection \<open>The session store\<close>

text \<open>
  C4. When a session is saved, loading it by its session id from the store that results
  gives a session with the same messages and the same stage.
\<close>

theorem load_after_save:
  "save writable store s = Inr store' \<Longrightarrow>
   \<exists>s'. load store' (s_session_id s) = Some s'
        \<and> s_messages s' = s_messages s \<and> s_stage s' = s_stage s"
  by (auto simp: save_def load_def split: if_splits)

theorem load_after_save_witness:
  "save True Map.empty demo_session = Inr (Map.empty(''s1'' \<mapsto> demo_session))
   \<and> (\<exists>s'. load (Map.empty(''s1'' \<mapsto> demo_session)) (s_session_id demo_session) = Some s'
           \<and> s_messages s' = s_messages demo_session \<and> s_stage s' = s_stage demo_session)"
proof -
  have sv: "save True Map.empty demo_session = Inr (Map.empty(''s1'' \<mapsto> demo_session))"
    by (simp add: save_def demo_session_def)
  from load_after_save [OF sv] sv show ?thesis by simp
qed

subsection \<open>Which request a chat message becomes\<close>

lemma sent_addAssistantMessage [simp]: "sent (addAssistantMessage env r c) = sent c"
  by (simp add: addAssistantMessage_def split: option.splits)

lemma sent_updateStageAndChallenge [simp]: "sent (updateStageAndChallenge env r c) = sent c"
  by (simp add: updateStageAndChallenge_def Let_def split: option.splits)

lemma ids_addAssistantMessage [simp]:
  "sessionId (ctx (addAssistantMessage env r c)) = sessionId (ctx c)"
  "userId (ctx (addAssistantMessage env r c)) = userId (ctx c)"
  by (simp_all add: addAssistantMessage_def split: option.splits)

lemma ids_updateStageAndChallenge [simp]:
  "sessionId (ctx (updateStageAndChallenge env r c)) = sessionId (ctx c)"
  "userId (ctx (updateStageAndChallenge env r c)) = userId (ctx c)"
  by (simp_all add: updateStageAndChallenge_def Let_def split: option.splits)

lemma ctx_waitingEffect [simp]: "ctx (waitingEffect c) = ctx c"
  and sent_waitingEffect [simp]: "sent (waitingEffect c) = sent c"
  and input_waitingEffect [simp]: "messageInput (waitingEffect c) = messageInput c"
  by (simp_all add: waitingEffect_def)




lemma ctx_beginTurn:
  "sessionId (ctx (beginTurn env c)) = sessionId (ctx c)"
  "userId (ctx (beginTurn env c)) = userId (ctx c)"
  "sent (beginTurn env c) = sent c"
  by (simp_all add: beginTurn_def Let_def)


lemma userId_sendToServer:
  "userId (ctx (fst (sendToServer env server c0 c))) = userId (ctx c)"
  by (simp add: sendToServer_def Let_def split: prod.splits sum.splits option.splits)



text \<open>After the service call a text turn changes neither the ids nor the requests.\<close>

lemma handleSendMessage_after_call:
  assumes "trim (messageInput c) \<noteq> []"
  shows "sessionId (ctx (handleSendMessage env server c)) =
           sessionId (ctx (fst (sendToServer env server c (beginTurn env c))))"
    and "userId (ctx (handleSendMessage env server c)) =
           userId (ctx (fst (sendToServer env server c (beginTurn env c))))"
    and "sent (handleSendMessage env server c) =
           sent (fst (sendToServer env server c (beginTurn env c)))"
proof -
  obtain c4 res where s: "sendToServer env server c (beginTurn env c) = (c4, res)"
    by (cases "sendToServer env server c (beginTurn env c)")
  with assms show
    "sessionId (ctx (handleSendMessage env server c)) =
           sessionId (ctx (fst (sendToServer env server c (beginTurn env c))))"
    "userId (ctx (handleSendMessage env server c)) =
           userId (ctx (fst (sendToServer env server c (beginTurn env c))))"
    "sent (handleSendMessage env server c) =
           sent (fst (sendToServer env server c (beginTurn env c)))"
    by (cases res; simp add: handleSendMessage_def Let_def)+
qed

lemma userId_handleSendMessage [simp]:
  "userId (ctx (handleSendMessage env server c)) = userId (ctx c)"
proof (cases "trim (messageInput c) = []")
  case True
  then show ?thesis by (simp add: handleSendMessage_def)
next
  case False
  then show ?thesis
    by (simp add: handleSendMessage_after_call userId_sendToServer ctx_beginTurn)
qed








subsection \<open>The challenge-complete signal\<close>









subsection \<open>Replays\<close>





subsection \<open>Recording the coding challenge\<close>

lemma text_flow_records_challenge:
  assumes "interview_stage d = Some stage"
    and "stage = ''coding_challenge'' \<or> stage = ''coding_challenge_waiting''"
    and "codingChallengeDetail d = Some ch"
  shows "currentCodingChallenge (ctx (updateStageAndChallenge env (Some d) c)) = Some ch
         \<and> interviewStage (ctx (updateStageAndChallenge env (Some d) c)) = stage"
  using assms by (auto simp: updateStageAndChallenge_def Let_def)

lemma panel_sets_waiting_stage:
  "currentChallengeDetails ed \<noteq> None \<Longrightarrow>
   interviewStage (ctx (challengeStageEffect env ed c)) = ''coding_challenge_waiting''"
  by (simp add: challengeStageEffect_def)

lemma voice_flow_records_challenge:
  assumes "interview_stage d = Some ''coding_challenge''"
    and "coding_challenge_detail d = Some ch"
  shows "currentCodingChallenge (ctx (voiceStageAndChallenge env cur d c)) = Some ch"
  using assms by (simp add: voiceStageAndChallenge_def Let_def)

lemma voice_flow_clears_challenge:
  assumes "interview_stage d = Some stage" and "stage \<noteq> []"
    and "stage \<noteq> ''coding_challenge''" and "cur \<noteq> None"
  shows "currentCodingChallenge (ctx (voiceStageAndChallenge env cur d c)) = None"
  using assms by (simp add: voiceStageAndChallenge_def Let_def)


subsection \<open>Reset\<close>

text \<open>
  C10. Reducing RESET gives the initial state in every field but \<open>userId\<close>: no session,
  no messages, not loading, no error, voice mode off, stage \<open>introduction\<close>, no job role,
  no coding challenge. The user id is \<open>user-\<close> followed by the uuid drawn at that moment.
\<close>

theorem reset_returns_initial_state:
  "reducer env state RESET = (initialState env)\<lparr>userId := Some (''user-'' @ reset_uuid env)\<rparr>
   \<and> reducer env state RESET = \<lparr>
        userId = Some (''user-'' @ reset_uuid env),
        sessionId = None,
        messages = [],
        loading = False,
        error = None,
        voiceMode = False,
        interviewStage = ''introduction'',
        jobRoleData = None,
        currentCodingChallenge = None \<rparr>"
  by (simp add: initialState_def)

end
